theory Spec2Isabelle
  imports Complex_Main
begin

section \<open>JavaScript numbers\<close>

text \<open>
  The calculator of \<^verbatim>\<open>src/App.jsx\<close> computes with JavaScript numbers. A number is
  modelled as a finite value or one of the three special values. Finite values are exact
  reals: the rounding of a result to the nearest double, and the overflow of a finite
  result to an infinity, are not modelled, and zero has no sign. The special values
  behave as in IEEE 754: they arise from \<^verbatim>\<open>parseFloat\<close>, from a division by zero
  and from the undefined forms, and they propagate through the operations.
\<close>

datatype num = Fin real | PInf | NInf | NaN

fun neg :: "num \<Rightarrow> num" where
  "neg (Fin a) = Fin (- a)"
| "neg PInf = NInf"
| "neg NInf = PInf"
| "neg NaN = NaN"

text \<open>The sign of a non-NaN number as seen by a product or a quotient (zero counts as +0).\<close>

fun negative :: "num \<Rightarrow> bool" where
  "negative (Fin a) = (a < 0)"
| "negative PInf = False"
| "negative NInf = True"
| "negative NaN = False"

definition signed_inf :: "bool \<Rightarrow> num" where
  "signed_inf is_neg = (if is_neg then NInf else PInf)"

instantiation num :: "{plus, minus, times, inverse}"
begin

definition plus_num :: "num \<Rightarrow> num \<Rightarrow> num" where
  "plus_num x y =
     (case x of
        Fin a \<Rightarrow> (case y of Fin b \<Rightarrow> Fin (a + b) | _ \<Rightarrow> y)
      | PInf \<Rightarrow> (if y = NaN \<or> y = NInf then NaN else PInf)
      | NInf \<Rightarrow> (if y = NaN \<or> y = PInf then NaN else NInf)
      | NaN \<Rightarrow> NaN)"

definition minus_num :: "num \<Rightarrow> num \<Rightarrow> num" where
  "minus_num x y = x + neg y"

definition times_num :: "num \<Rightarrow> num \<Rightarrow> num" where
  "times_num x y =
     (case (x, y) of
        (Fin a, Fin b) \<Rightarrow> Fin (a * b)
      | _ \<Rightarrow>
          if x = NaN \<or> y = NaN \<or> x = Fin 0 \<or> y = Fin 0 then NaN
          else signed_inf (negative x \<noteq> negative y))"

definition divide_num :: "num \<Rightarrow> num \<Rightarrow> num" where
  "divide_num x y =
     (case (x, y) of
        (Fin a, Fin b) \<Rightarrow>
          if b = 0 then (if a = 0 then NaN else signed_inf (a < 0)) else Fin (a / b)
      | (Fin a, _) \<Rightarrow> if y = NaN then NaN else Fin 0
      | (_, Fin b) \<Rightarrow> if x = NaN then NaN else signed_inf (negative x \<noteq> (b < 0))
      | _ \<Rightarrow> NaN)"

definition inverse_num :: "num \<Rightarrow> num" where
  "inverse_num x = divide (Fin 1) x"

instance ..

end

text \<open>\<^verbatim>\<open>Number.isFinite\<close>, and the comparisons, which are false as soon as one side is NaN.\<close>

definition isFinite :: "num \<Rightarrow> bool" where
  "isFinite x = (case x of Fin a \<Rightarrow> True | _ \<Rightarrow> False)"

definition js_lt :: "num \<Rightarrow> num \<Rightarrow> bool" where
  "js_lt x y =
     (case (x, y) of
        (Fin a, Fin b) \<Rightarrow> a < b
      | _ \<Rightarrow> x \<noteq> NaN \<and> y \<noteq> NaN \<and> x \<noteq> y \<and> (x = NInf \<or> y = PInf))"

definition js_gt :: "num \<Rightarrow> num \<Rightarrow> bool" where
  "js_gt x y = js_lt y x"

definition js_le :: "num \<Rightarrow> num \<Rightarrow> bool" where
  "js_le x y = (x \<noteq> NaN \<and> y \<noteq> NaN \<and> \<not> js_lt y x)"

definition js_ge :: "num \<Rightarrow> num \<Rightarrow> bool" where
  "js_ge x y = js_le y x"

text \<open>\<^verbatim>\<open>Math.max\<close> of two arguments, \<^verbatim>\<open>Math.floor\<close> and \<^verbatim>\<open>Math.abs\<close>.\<close>

definition Math_max :: "num \<Rightarrow> num \<Rightarrow> num" where
  "Math_max x y = (if x = NaN \<or> y = NaN then NaN else if js_lt x y then y else x)"

definition Math_floor :: "num \<Rightarrow> num" where
  "Math_floor x = (case x of Fin a \<Rightarrow> Fin (of_int \<lfloor>a\<rfloor>) | _ \<Rightarrow> x)"

fun Math_abs :: "num \<Rightarrow> num" where
  "Math_abs (Fin a) = Fin \<bar>a\<bar>"
| "Math_abs NaN = NaN"
| "Math_abs PInf = PInf"
| "Math_abs NInf = PInf"

section \<open>Utilities\<close>

text \<open>
  \<^verbatim>\<open>const clamp = (n, min = 0) => (Number.isFinite(n) ? Math.max(min, n) : 0);\<close>
  \<^verbatim>\<open>const safe = (n) => (Number.isFinite(n) ? n : 0);\<close>
  The parameter \<^verbatim>\<open>min\<close> is \<open>mn\<close>; its default is written out at each call.
\<close>

definition clamp :: "num \<Rightarrow> num \<Rightarrow> num" where
  "clamp n mn = (if isFinite n then Math_max mn n else Fin 0)"

definition safe :: "num \<Rightarrow> num" where
  "safe n = (if isFinite n then n else Fin 0)"

section \<open>The numeric parser\<close>

text \<open>
  Strings are lists of 8-bit characters, so of the characters that \<^verbatim>\<open>trim\<close> and the
  class \<^verbatim>\<open>\s\<close> treat as white space the model has TAB, LF, VT, FF, CR, SP and NBSP.
\<close>

definition is_ws :: "char \<Rightarrow> bool" where
  "is_ws c = (of_char c \<in> {9, 10, 11, 12, 13, 32, 160 :: nat})"

definition is_digit :: "char \<Rightarrow> bool" where
  "is_digit c = (c \<in> set ''0123456789'')"

definition digit_val :: "char \<Rightarrow> int" where
  "digit_val c = of_char c - 48"

definition digits_val :: "string \<Rightarrow> int" where
  "digits_val ds = foldl (\<lambda>a c. 10 * a + digit_val c) 0 ds"

text \<open>
  \<^verbatim>\<open>parseFloat\<close> skips leading white space and reads the longest prefix that is a
  \<^verbatim>\<open>StrDecimalLiteral\<close>: an optional sign, then \<^verbatim>\<open>Infinity\<close> or decimal digits with
  an optional fraction and an optional exponent part. Without such a prefix the result is
  NaN. An exponent indicator that no digit follows does not belong to the prefix. The
  value of the literal is taken exactly.
\<close>

definition decimal_value :: "string \<Rightarrow> string \<Rightarrow> int \<Rightarrow> real" where
  "decimal_value ip fp e =
     of_int (digits_val (ip @ fp)) / 10 ^ length fp
       * (if 0 \<le> e then 10 ^ nat e else 1 / 10 ^ nat (- e))"

definition exponent_digits :: "string \<Rightarrow> int" where
  "exponent_digits r = digits_val (takeWhile is_digit r)"

fun exponent_part :: "string \<Rightarrow> int" where
  "exponent_part [] = 0"
| "exponent_part (c # r) =
     (if c = CHR ''e'' \<or> c = CHR ''E'' then
        (case r of
           [] \<Rightarrow> 0
         | s # r' \<Rightarrow>
             if s = CHR ''+'' then (if takeWhile is_digit r' = [] then 0 else exponent_digits r')
             else if s = CHR ''-'' then (if takeWhile is_digit r' = [] then 0 else - exponent_digits r')
             else (if takeWhile is_digit r = [] then 0 else exponent_digits r))
      else 0)"

definition unsigned_literal :: "string \<Rightarrow> num" where
  "unsigned_literal s =
     (if take 8 s = ''Infinity'' then PInf
      else
        let ip = takeWhile is_digit s; r1 = dropWhile is_digit s in
        if r1 \<noteq> [] \<and> hd r1 = CHR ''.'' then
          (let fp = takeWhile is_digit (tl r1); r2 = dropWhile is_digit (tl r1) in
           if ip = [] \<and> fp = [] then NaN
           else Fin (decimal_value ip fp (exponent_part r2)))
        else if ip = [] then NaN
        else Fin (decimal_value ip [] (exponent_part r1)))"

definition parseFloat :: "string \<Rightarrow> num" where
  "parseFloat s =
     (let t = dropWhile is_ws s in
      if t \<noteq> [] \<and> hd t = CHR ''+'' then unsigned_literal (tl t)
      else if t \<noteq> [] \<and> hd t = CHR ''-'' then neg (unsigned_literal (tl t))
      else unsigned_literal t)"

text \<open>
  \<^verbatim>\<open>
  const P = (v) => {
    let s = String(v ?? "").trim().replace(/\s/g, "");
    const hasDot = s.includes(".");
    const c = (s.match(/,/g) || []).length;
    s = !hasDot && c === 1 ? s.replace(",", ".") : s.replace(/,/g, "");
    const n = parseFloat(s);
    return Number.isFinite(n) ? n : 0;
  };
  \<close>
  \<^verbatim>\<open>replace\<close> with a string pattern replaces the first occurrence only.
\<close>

definition trim :: "string \<Rightarrow> string" where
  "trim s = rev (dropWhile is_ws (rev (dropWhile is_ws s)))"

fun replace_first :: "char \<Rightarrow> char \<Rightarrow> string \<Rightarrow> string" where
  "replace_first a b [] = []"
| "replace_first a b (x # xs) = (if x = a then b # xs else x # replace_first a b xs)"

definition P :: "string \<Rightarrow> num" where
  "P v =
     (let s = filter (\<lambda>c. \<not> is_ws c) (trim v);
          hasDot = (CHR ''.'' \<in> set s);
          c = length (filter (\<lambda>x. x = CHR '','') s);
          s' = (if \<not> hasDot \<and> c = 1 then replace_first (CHR '','') (CHR ''.'') s
                else filter (\<lambda>x. x \<noteq> CHR '','') s);
          n = parseFloat s'
      in if isFinite n then n else Fin 0)"

section \<open>The form state\<close>

text \<open>
  The component \<^verbatim>\<open>App\<close> keeps the form in one object \<^verbatim>\<open>f\<close> whose twelve
  properties hold the texts of the inputs; \<^verbatim>\<open>S(k)(v)\<close> stores \<^verbatim>\<open>v\<close> under the
  key \<^verbatim>\<open>k\<close>. A stored text is either a string as it was typed or loaded, or the
  string \<^verbatim>\<open>String(n)\<close> that the code itself writes for a number \<^verbatim>\<open>n\<close>. Exact
  reals have no finite decimal expansion in general, so the latter is kept as the number it
  prints: \<^verbatim>\<open>Number.prototype.toString\<close> yields a literal without comma or white space
  that \<^verbatim>\<open>parseFloat\<close> reads back as the same number, or one of the strings
  \<^verbatim>\<open>"Infinity"\<close>, \<^verbatim>\<open>"-Infinity"\<close> and \<^verbatim>\<open>"NaN"\<close>, which the parser
  turns into 0.
\<close>

datatype key =
  K_tenant | K_nla | K_addon | K_rent | K_duration | K_rf | K_agent
  | K_fitMode | K_fitPerNLA | K_fitPerGLA | K_fitTot | K_unforeseen

datatype fieldval = Typed string | Printed num

type_synonym form = "key \<Rightarrow> fieldval"

fun P_val :: "fieldval \<Rightarrow> num" where
  "P_val (Typed s) = P s"
| "P_val (Printed n) = (if isFinite n then n else Fin 0)"

definition S :: "key \<Rightarrow> fieldval \<Rightarrow> form \<Rightarrow> form" where
  "S k v s = s(k := v)"

text \<open>The initial state of \<^verbatim>\<open>useState\<close>.\<close>

definition init_f :: form where
  "init_f k =
     (case k of
        K_tenant \<Rightarrow> Typed []
      | K_nla \<Rightarrow> Typed ''1000''
      | K_addon \<Rightarrow> Typed ''5.00''
      | K_rent \<Rightarrow> Typed ''15.00''
      | K_duration \<Rightarrow> Typed ''60''
      | K_rf \<Rightarrow> Typed ''5.0''
      | K_agent \<Rightarrow> Typed ''2.0''
      | K_fitMode \<Rightarrow> Typed ''perNLA''
      | K_fitPerNLA \<Rightarrow> Typed ''300.00''
      | K_fitPerGLA \<Rightarrow> Typed []
      | K_fitTot \<Rightarrow> Typed ''300000.00''
      | K_unforeseen \<Rightarrow> Typed ''0'')"

section \<open>The NER chain\<close>

text \<open>
  The calculations in the body of \<^verbatim>\<open>App\<close>, each constant as a function of the form.
  \<^verbatim>\<open>1e-9\<close> is the real \<open>1 / 10 ^ 9\<close>.
\<close>

definition eps :: num where
  "eps = Fin (1 / 10 ^ 9)"

definition nla :: "form \<Rightarrow> num" where
  "nla f = clamp (P_val (f K_nla)) (Fin 0)"

definition addon :: "form \<Rightarrow> num" where
  "addon f = clamp (P_val (f K_addon)) (Fin 0)"

definition rent :: "form \<Rightarrow> num" where
  "rent f = clamp (P_val (f K_rent)) (Fin 0)"

definition duration :: "form \<Rightarrow> num" where
  "duration f = Math_max (Fin 0) (Math_floor (P_val (f K_duration)))"

definition rf :: "form \<Rightarrow> num" where
  "rf f = clamp (P_val (f K_rf)) (Fin 0)"

definition agent :: "form \<Rightarrow> num" where
  "agent f = clamp (P_val (f K_agent)) (Fin 0)"

definition unforeseen :: "form \<Rightarrow> num" where
  "unforeseen f = clamp (P_val (f K_unforeseen)) (Fin 0)"

definition gla :: "form \<Rightarrow> num" where
  "gla f = nla f * (Fin 1 + addon f / Fin 100)"

definition months :: "form \<Rightarrow> num" where
  "months f = Math_max (Fin 0) (duration f - rf f)"

definition gross :: "form \<Rightarrow> num" where
  "gross f = rent f * gla f * months f"

definition perNLA :: "form \<Rightarrow> num" where
  "perNLA f = clamp (P_val (f K_fitPerNLA)) (Fin 0)"

definition perGLA :: "form \<Rightarrow> num" where
  "perGLA f = clamp (P_val (f K_fitPerGLA)) (Fin 0)"

definition tot :: "form \<Rightarrow> num" where
  "tot f = clamp (P_val (f K_fitTot)) (Fin 0)"

definition totalFit :: "form \<Rightarrow> num" where
  "totalFit f =
     (if f K_fitMode = Typed ''perNLA'' then perNLA f * nla f
      else if f K_fitMode = Typed ''perGLA'' then perGLA f * gla f
      else tot f)"

definition agentFees :: "form \<Rightarrow> num" where
  "agentFees f = agent f * rent f * gla f"

definition denom :: "form \<Rightarrow> num" where
  "denom f = Math_max eps (duration f * gla f)"

definition ner1 :: "form \<Rightarrow> num" where
  "ner1 f = gross f / denom f"

definition ner2 :: "form \<Rightarrow> num" where
  "ner2 f = (gross f - totalFit f) / denom f"

definition ner3 :: "form \<Rightarrow> num" where
  "ner3 f = (gross f - totalFit f - agentFees f) / denom f"

definition ner4 :: "form \<Rightarrow> num" where
  "ner4 f = (gross f - totalFit f - agentFees f - unforeseen f) / denom f"

section \<open>The fit-out synchronisation\<close>

text \<open>
  The effect \<^verbatim>\<open>Sync Fit-outs\<close> derives two of the three fit-out fields from the one
  that the mode makes authoritative, and writes a derived field back only when it is more
  than \<^verbatim>\<open>1e-9\<close> away from the stored one. \<open>sync_writes\<close> lists the writes of one run
  in the order of the source; \<open>sync\<close> is the form after them.
\<close>

definition write_if :: "bool \<Rightarrow> key \<Rightarrow> num \<Rightarrow> (key \<times> fieldval) list" where
  "write_if b k n = (if b then [(k, Printed n)] else [])"

definition sync_writes :: "form \<Rightarrow> (key \<times> fieldval) list" where
  "sync_writes f =
     (let nNLA = clamp (P_val (f K_fitPerNLA)) (Fin 0);
          nGLA = clamp (P_val (f K_fitPerGLA)) (Fin 0);
          nTot = clamp (P_val (f K_fitTot)) (Fin 0)
      in
        if f K_fitMode = Typed ''perNLA'' then
          (let t = nNLA * nla f;
               g = (if js_gt (gla f) (Fin 0) then t / gla f else Fin 0)
           in write_if (js_gt (Math_abs (t - nTot)) eps) K_fitTot t
              @ write_if (js_gt (Math_abs (g - nGLA)) eps) K_fitPerGLA g)
        else if f K_fitMode = Typed ''perGLA'' then
          (let t = nGLA * gla f;
               n = (if js_gt (nla f) (Fin 0) then t / nla f else Fin 0)
           in write_if (js_gt (Math_abs (t - nTot)) eps) K_fitTot t
              @ write_if (js_gt (Math_abs (n - nNLA)) eps) K_fitPerNLA n)
        else
          (let n = (if js_gt (nla f) (Fin 0) then nTot / nla f else Fin 0);
               g = (if js_gt (gla f) (Fin 0) then nTot / gla f else Fin 0)
           in write_if (js_gt (Math_abs (n - nNLA)) eps) K_fitPerNLA n
              @ write_if (js_gt (Math_abs (g - nGLA)) eps) K_fitPerGLA g))"

definition sync :: "form \<Rightarrow> form" where
  "sync f = foldl (\<lambda>s (k, v). S k v s) f (sync_writes f)"

section \<open>Scenarios\<close>

text \<open>
  A scenario is an identifier and an object of overrides; \<^verbatim>\<open>setScenarioVal\<close> stores
  one override, \<^verbatim>\<open>scenarioView\<close> spreads the overrides over the form and hands the
  result to \<^verbatim>\<open>calcScenarioNER\<close>, which reads each value as
  \<^verbatim>\<open>vals.key ?? f.key\<close>. An object is a map from keys to texts, and a missing
  property is \<open>None\<close>.
\<close>

record scenario =
  id_sc :: nat
  overrides :: "key \<rightharpoonup> fieldval"

record app =
  f_app :: form
  scenarios :: "scenario list"

definition init_app :: app where
  "init_app =
     \<lparr>f_app = init_f,
      scenarios = [\<lparr>id_sc = 2, overrides = Map.empty\<rparr>,
                   \<lparr>id_sc = 3, overrides = Map.empty\<rparr>,
                   \<lparr>id_sc = 4, overrides = Map.empty\<rparr>]\<rparr>"

definition setScenarioVal :: "nat \<Rightarrow> key \<Rightarrow> fieldval \<Rightarrow> app \<Rightarrow> app" where
  "setScenarioVal i k v st =
     st\<lparr>scenarios :=
          map (\<lambda>sc. if id_sc sc = i then sc\<lparr>overrides := (overrides sc)(k \<mapsto> v)\<rparr> else sc)
            (scenarios st)\<rparr>"

definition nullish :: "'a option \<Rightarrow> 'a \<Rightarrow> 'a" where
  "nullish v d = (case v of Some x \<Rightarrow> x | None \<Rightarrow> d)"

definition calcScenarioNER :: "form \<Rightarrow> (key \<rightharpoonup> fieldval) \<Rightarrow> num" where
  "calcScenarioNER f vals =
     (let nlaS = clamp (P_val (nullish (vals K_nla) (f K_nla))) (Fin 0);
          addonS = clamp (P_val (nullish (vals K_addon) (f K_addon))) (Fin 0);
          glaS = nlaS * (Fin 1 + addonS / Fin 100);
          rentS = clamp (P_val (nullish (vals K_rent) (f K_rent))) (Fin 0);
          durationS =
            Math_max (Fin 0) (Math_floor (P_val (nullish (vals K_duration) (f K_duration))));
          rfS = clamp (P_val (nullish (vals K_rf) (f K_rf))) (Fin 0);
          agentS = clamp (P_val (nullish (vals K_agent) (f K_agent))) (Fin 0);
          unforeseenS = clamp (P_val (nullish (vals K_unforeseen) (f K_unforeseen))) (Fin 0);
          monthsS = Math_max (Fin 0) (durationS - rfS);
          grossS = rentS * glaS * monthsS;
          perNLAS = clamp (P_val (nullish (vals K_fitPerNLA) (f K_fitPerNLA))) (Fin 0);
          fitS = perNLAS * nlaS;
          agentFeesS = agentS * rentS * glaS;
          denomS = Math_max eps (durationS * glaS)
      in (grossS - fitS - agentFeesS - unforeseenS) / denomS)"

definition spread :: "form \<Rightarrow> (key \<rightharpoonup> fieldval) \<Rightarrow> (key \<rightharpoonup> fieldval)" where
  "spread f ov = (Some \<circ> f) ++ ov"

definition scenarioView :: "app \<Rightarrow> (nat \<times> num) list" where
  "scenarioView st =
     map (\<lambda>sc. (id_sc sc, calcScenarioNER (f_app st) (spread (f_app st) (overrides sc))))
       (scenarios st)"

section \<open>The waterfall\<close>







section \<open>The specification's reading of the parser and of the scenario values\<close>

text \<open>
  The parser in the words of the specification: strip all white space; with no dot and
  exactly one comma, that comma becomes the decimal point; otherwise every comma is
  deleted; the result is parsed as a float, and a result that is not finite becomes 0.
\<close>

definition parse_spec :: "string \<Rightarrow> num" where
  "parse_spec s =
     (let t = filter (\<lambda>c. \<not> is_ws c) s;
          u = (if CHR ''.'' \<notin> set t \<and> count_list t (CHR '','') = 1
               then map (\<lambda>c. if c = CHR '','' then CHR ''.'' else c) t
               else filter (\<lambda>c. c \<noteq> CHR '','') t);
          n = parseFloat u
      in if isFinite n then n else Fin 0)"

text \<open>
  The effective parameter set of a scenario in the words of the specification: the
  override of a key when it is present, the value of the baseline otherwise.
\<close>

definition effective :: "form \<Rightarrow> (key \<rightharpoonup> fieldval) \<Rightarrow> form" where
  "effective f ov k = (case ov k of Some v \<Rightarrow> v | None \<Rightarrow> f k)"


section \<open>Arithmetic on finite numbers\<close>

lemma Fin_plus [simp]: "Fin a + Fin b = Fin (a + b)"
  by (simp add: plus_num_def)

lemma Fin_minus [simp]: "Fin a - Fin b = Fin (a - b)"
  by (simp add: minus_num_def plus_num_def)

lemma Fin_times [simp]: "Fin a * Fin b = Fin (a * b)"
  by (simp add: times_num_def)

lemma Fin_divide [simp]: "b \<noteq> 0 \<Longrightarrow> Fin a / Fin b = Fin (a / b)"
  by (simp add: divide_num_def)

lemma isFinite_simps [simp]:
  "isFinite (Fin a)" "\<not> isFinite NaN" "\<not> isFinite PInf" "\<not> isFinite NInf"
  by (simp_all add: isFinite_def)


lemma js_lt_Fin [simp]: "js_lt (Fin a) (Fin b) \<longleftrightarrow> a < b"
  by (simp add: js_lt_def)

lemma js_gt_Fin [simp]: "js_gt (Fin a) (Fin b) \<longleftrightarrow> b < a"
  by (simp add: js_gt_def)

lemma js_le_Fin [simp]: "js_le (Fin a) (Fin b) \<longleftrightarrow> a \<le> b"
  by (auto simp add: js_le_def)

lemma js_ge_Fin [simp]: "js_ge (Fin a) (Fin b) \<longleftrightarrow> b \<le> a"
  by (simp add: js_ge_def)

lemma Math_max_Fin [simp]: "Math_max (Fin a) (Fin b) = Fin (max a b)"
  by (simp add: Math_max_def max_def)

lemma Math_floor_Fin [simp]: "Math_floor (Fin a) = Fin (of_int \<lfloor>a\<rfloor>)"
  by (simp add: Math_floor_def)

lemma clamp_Fin [simp]: "clamp (Fin a) (Fin b) = Fin (max b a)"
  by (simp add: clamp_def)

lemma safe_Fin [simp]: "safe (Fin a) = Fin a"
  by (simp add: safe_def)

section \<open>The guard\<close>

text \<open>
  C9, as the code has it: for a finite \<open>n\<close>, \<open>clamp n mn\<close> is \<open>n\<close> when
  \<open>n \<ge> mn\<close> and \<open>mn\<close> otherwise; for an \<open>n\<close> that is not finite it is 0,
  whatever the minimum is.
\<close>

theorem clamp_cases:
  "clamp n mn = (if isFinite n then (if js_ge n mn then n else mn) else Fin 0)"
  by (cases n; cases mn) (auto simp add: clamp_def Math_max_def js_ge_def js_le_def js_lt_def)

text \<open>
  The claim C9 as it was stated, that every \<open>n\<close> which is not a finite number at least
  \<open>mn\<close> gives \<open>mn\<close>, fails for NaN with the minimum 5: the result is 0.
\<close>

theorem clamp_counterexample:
  "clamp NaN (Fin 5) \<noteq> (if isFinite NaN \<and> js_ge NaN (Fin 5) then NaN else Fin 5)"
  by (simp add: clamp_def)

section \<open>The parser\<close>

lemmas parse_defs =
  P_def parseFloat_def unsigned_literal_def decimal_value_def digits_val_def digit_val_def
  is_digit_def is_ws_def trim_def exponent_digits_def Let_def

lemma filter_dropWhile_not: "filter (\<lambda>c. \<not> Q c) (dropWhile Q xs) = filter (\<lambda>c. \<not> Q c) xs"
  by (induction xs) simp_all

lemma filter_trim: "filter (\<lambda>c. \<not> is_ws c) (trim s) = filter (\<lambda>c. \<not> is_ws c) s"
proof -
  have "filter (\<lambda>c. \<not> is_ws c) (trim s)
      = rev (filter (\<lambda>c. \<not> is_ws c) (dropWhile is_ws (rev (dropWhile is_ws s))))"
    by (simp add: trim_def rev_filter)
  also have "\<dots> = rev (filter (\<lambda>c. \<not> is_ws c) (rev (dropWhile is_ws s)))"
    by (simp only: filter_dropWhile_not)
  also have "\<dots> = filter (\<lambda>c. \<not> is_ws c) (dropWhile is_ws s)"
    by (simp add: rev_filter)
  finally show ?thesis
    by (simp only: filter_dropWhile_not)
qed

lemma map_replace_absent: "filter (\<lambda>x. x = a) xs = [] \<Longrightarrow> map (\<lambda>c. if c = a then b else c) xs = xs"
  by (induction xs) (auto split: if_splits)

lemma replace_first_single:
  "length (filter (\<lambda>x. x = a) xs) = 1 \<Longrightarrow> replace_first a b xs = map (\<lambda>c. if c = a then b else c) xs"
  by (induction xs) (auto simp add: map_replace_absent)

lemma count_list_filter: "count_list xs a = length (filter (\<lambda>x. x = a) xs)"
  by (induction xs) auto

lemma P_parse_spec: "P s = parse_spec s"
  by (simp add: P_def parse_spec_def filter_trim count_list_filter replace_first_single Let_def)

lemma P_finite: "isFinite (P s)"
  by (simp add: P_def Let_def)

text \<open>
  C2, as the code has it: \<open>P\<close> computes what the specification's algorithm describes
  and its result is always a finite number; on the four examples it gives
  \<open>1.5\<close>, \<open>1.234\<close> (one comma and no dot: the comma is the decimal point),
  \<open>1.23456\<close> (a dot is present: the comma is deleted) and \<open>0\<close>.
\<close>

theorem P_policy:
  "P s = parse_spec s \<and> isFinite (P s)
   \<and> P ''1,5'' = Fin (15 / 10) \<and> P ''1,234'' = Fin (1234 / 1000)
   \<and> P ''1.234,56'' = Fin (123456 / 100000) \<and> P ''abc'' = Fin 0"
proof -
  have "P ''1,5'' = Fin (15 / 10)" by (simp add: parse_defs)
  moreover have "P ''1,234'' = Fin (1234 / 1000)" by (simp add: parse_defs)
  moreover have "P ''1.234,56'' = Fin (123456 / 100000)" by (simp add: parse_defs)
  moreover have "P ''abc'' = Fin 0" by (simp add: parse_defs)
  ultimately show ?thesis using P_parse_spec [of s] P_finite [of s] by simp
qed

text \<open>
  The claim C2 as it was stated has \<open>P "1,234" = 1234\<close>; the code reads the single
  comma as the decimal point.
\<close>

theorem P_counterexample: "P ''1,234'' \<noteq> Fin 1234"
  by (simp add: parse_defs)

section \<open>The NER chain in real arithmetic\<close>


















section \<open>The worked example\<close>

text \<open>
  C1: a form whose guarded values are \<open>nla = 1000\<close>, \<open>addon = 5\<close>, \<open>rent = 15\<close>,
  \<open>duration = 60\<close>, \<open>rf = 5\<close>, \<open>agent = 2\<close>, \<open>fitPerNLA = 300\<close>,
  \<open>unforeseen = 0\<close>, in the mode \<open>perNLA\<close>, gives \<open>gla = 1050\<close>,
  \<open>months = 55\<close>, \<open>gross = 866250\<close>, \<open>totalFit = 300000\<close>,
  \<open>agentFees = 31500\<close>, \<open>denom = 63000\<close> and the four NER values of the claim.
\<close>

theorem worked_example:
  assumes "nla f = Fin 1000" and "addon f = Fin 5" and "rent f = Fin 15"
    and "duration f = Fin 60" and "rf f = Fin 5" and "agent f = Fin 2"
    and "f K_fitMode = Typed ''perNLA''" and "perNLA f = Fin 300" and "unforeseen f = Fin 0"
  shows "gla f = Fin 1050 \<and> months f = Fin 55 \<and> gross f = Fin 866250
    \<and> totalFit f = Fin 300000 \<and> agentFees f = Fin 31500 \<and> denom f = Fin 63000
    \<and> ner1 f = Fin (866250 / 63000) \<and> ner2 f = Fin ((866250 - 300000) / 63000)
    \<and> ner3 f = Fin ((866250 - 300000 - 31500) / 63000) \<and> ner4 f = ner3 f"
proof -
  have g: "gla f = Fin 1050" by (simp add: gla_def assms)
  have m: "months f = Fin 55" by (simp add: months_def assms)
  have G: "gross f = Fin 866250" by (simp add: gross_def g m assms)
  have t: "totalFit f = Fin 300000" by (simp add: totalFit_def assms)
  have a: "agentFees f = Fin 31500" by (simp add: agentFees_def g assms)
  have d: "denom f = Fin 63000" by (simp add: denom_def eps_def g assms)
  have n1: "ner1 f = Fin (866250 / 63000)" by (simp add: ner1_def G d)
  have n2: "ner2 f = Fin ((866250 - 300000) / 63000)" by (simp add: ner2_def G t d)
  have n3: "ner3 f = Fin ((866250 - 300000 - 31500) / 63000)" by (simp add: ner3_def G t a d)
  have n4: "ner4 f = ner3 f" by (simp add: ner4_def ner3_def G t a d assms)
  show ?thesis using g m G t a d n1 n2 n3 n4 by simp
qed

text \<open>The initial form of the application is such a form.\<close>

theorem worked_example_witness:
  "nla init_f = Fin 1000 \<and> addon init_f = Fin 5 \<and> rent init_f = Fin 15
   \<and> duration init_f = Fin 60 \<and> rf init_f = Fin 5 \<and> agent init_f = Fin 2
   \<and> init_f K_fitMode = Typed ''perNLA'' \<and> perNLA init_f = Fin 300
   \<and> unforeseen init_f = Fin 0
   \<and> gla init_f = Fin 1050 \<and> months init_f = Fin 55 \<and> gross init_f = Fin 866250
   \<and> totalFit init_f = Fin 300000 \<and> agentFees init_f = Fin 31500
   \<and> denom init_f = Fin 63000 \<and> ner1 init_f = Fin (55 / 4)
   \<and> ner4 init_f = Fin (713 / 84)"
proof -
  have h1: "nla init_f = Fin 1000" by (simp add: nla_def init_f_def parse_defs)
  have h2: "addon init_f = Fin 5" by (simp add: addon_def init_f_def parse_defs)
  have h3: "rent init_f = Fin 15" by (simp add: rent_def init_f_def parse_defs)
  have h4: "duration init_f = Fin 60" by (simp add: duration_def init_f_def parse_defs)
  have h5: "rf init_f = Fin 5" by (simp add: rf_def init_f_def parse_defs)
  have h6: "agent init_f = Fin 2" by (simp add: agent_def init_f_def parse_defs)
  have h7: "init_f K_fitMode = Typed ''perNLA''" by (simp add: init_f_def)
  have h8: "perNLA init_f = Fin 300" by (simp add: perNLA_def init_f_def parse_defs)
  have h9: "unforeseen init_f = Fin 0" by (simp add: unforeseen_def init_f_def parse_defs)
  show ?thesis
    using worked_example [OF h1 h2 h3 h4 h5 h6 h7 h8 h9] h1 h2 h3 h4 h5 h6 h7 h8 h9 by simp
qed

section \<open>A zero area\<close>







section \<open>Scenario values\<close>

lemma nullish_spread: "nullish (spread f ov k) (f k) = effective f ov k"
  by (simp add: nullish_def spread_def effective_def map_add_def split: option.splits)

lemma calcScenarioNER_effective:
  "calcScenarioNER f (spread f ov) = ner4 ((effective f ov)(K_fitMode := Typed ''perNLA''))"
  by (simp add: calcScenarioNER_def nullish_spread Let_def ner4_def gross_def gla_def nla_def
      addon_def rent_def months_def duration_def rf_def totalFit_def perNLA_def agentFees_def
      agent_def unforeseen_def denom_def)

text \<open>
  C5: the NER of a scenario is the baseline engine's \<open>ner4\<close> on the effective
  parameter set (the override of a key when present, the baseline's value otherwise) with
  the fit-out mode fixed to \<open>perNLA\<close>: its fit-out total is the effective
  \<open>fitPerNLA\<close> times the effective \<open>nla\<close>, every other step is the engine's, the
  mode of the baseline does not matter, and \<open>scenarioView\<close> computes exactly this for
  each scenario.
\<close>

theorem scenario_resolution:
  "calcScenarioNER f (spread f ov) = ner4 ((effective f ov)(K_fitMode := Typed ''perNLA''))
   \<and> totalFit ((effective f ov)(K_fitMode := Typed ''perNLA''))
       = perNLA (effective f ov) * nla (effective f ov)
   \<and> calcScenarioNER f (spread f ov)
       = (gross (effective f ov) - perNLA (effective f ov) * nla (effective f ov)
           - agentFees (effective f ov) - unforeseen (effective f ov)) / denom (effective f ov)
   \<and> calcScenarioNER (f(K_fitMode := m)) (spread (f(K_fitMode := m)) ov)
       = calcScenarioNER f (spread f ov)
   \<and> scenarioView st
       = map (\<lambda>sc. (id_sc sc,
                ner4 ((effective (f_app st) (overrides sc))(K_fitMode := Typed ''perNLA''))))
           (scenarios st)"
proof -
  have 1: "totalFit ((effective f ov)(K_fitMode := Typed ''perNLA''))
       = perNLA (effective f ov) * nla (effective f ov)"
    by (simp add: totalFit_def perNLA_def nla_def)
  have 2: "calcScenarioNER f (spread f ov)
       = (gross (effective f ov) - perNLA (effective f ov) * nla (effective f ov)
           - agentFees (effective f ov) - unforeseen (effective f ov)) / denom (effective f ov)"
    by (simp add: calcScenarioNER_def nullish_spread Let_def gross_def gla_def nla_def
      addon_def rent_def months_def duration_def rf_def perNLA_def agentFees_def
      agent_def unforeseen_def denom_def)
  have "(effective (f(K_fitMode := m)) ov)(K_fitMode := Typed ''perNLA'')
      = (effective f ov)(K_fitMode := Typed ''perNLA'')"
    by (rule ext) (simp add: effective_def split: option.splits)
  then have 3: "calcScenarioNER (f(K_fitMode := m)) (spread (f(K_fitMode := m)) ov)
       = calcScenarioNER f (spread f ov)"
    by (simp add: calcScenarioNER_effective)
  have 4: "scenarioView st
       = map (\<lambda>sc. (id_sc sc,
                ner4 ((effective (f_app st) (overrides sc))(K_fitMode := Typed ''perNLA''))))
           (scenarios st)"
    by (simp add: scenarioView_def calcScenarioNER_effective)
  show ?thesis using calcScenarioNER_effective [of f ov] 1 2 3 4 by simp
qed

section \<open>Scenario isolation\<close>

lemma effective_single: "effective f [k \<mapsto> v] = f(k := v)"
  by (rule ext) (simp add: effective_def)

text \<open>
  C6: on the baseline of the worked example, storing the override \<open>rent = 20\<close> in
  scenario 2 leaves the form as it was, so the baseline's \<open>ner4\<close> is the same before
  and after; the view of scenario 2 is the engine's \<open>ner4\<close> on the form with the rent
  20 and every other field of the baseline, and the scenarios without override show the
  baseline's \<open>ner4\<close>.
\<close>

theorem scenario_isolation:
  assumes "nla f = Fin 1000" and "addon f = Fin 5" and "rent f = Fin 15"
    and "duration f = Fin 60" and "rf f = Fin 5" and "agent f = Fin 2"
    and "f K_fitMode = Typed ''perNLA''" and "perNLA f = Fin 300" and "unforeseen f = Fin 0"
  shows "f_app (setScenarioVal 2 K_rent (Typed ''20'') \<lparr>f_app = f, scenarios = scenarios init_app\<rparr>) = f
    \<and> scenarioView (setScenarioVal 2 K_rent (Typed ''20'') \<lparr>f_app = f, scenarios = scenarios init_app\<rparr>)
        = [(2, ner4 (f(K_rent := Typed ''20''))), (3, ner4 f), (4, ner4 f)]
    \<and> ner4 (f(K_rent := Typed ''20'')) = Fin ((20 * 1050 * 55 - 300000 - 2 * 20 * 1050 - 0) / 63000)
    \<and> ner4 f = Fin ((15 * 1050 * 55 - 300000 - 2 * 15 * 1050 - 0) / 63000)
    \<and> ner4 (f_app (setScenarioVal 2 K_rent (Typed ''20'') \<lparr>f_app = f, scenarios = scenarios init_app\<rparr>))
        = ner4 f"
proof -
  let ?st = "setScenarioVal 2 K_rent (Typed ''20'') \<lparr>f_app = f, scenarios = scenarios init_app\<rparr>"
  have frame: "f_app ?st = f" by (simp add: setScenarioVal_def)
  have mode: "f(K_fitMode := Typed ''perNLA'') = f"
    using assms(7) by (rule_tac ext) simp
  have mode': "f(K_rent := Typed ''20'', K_fitMode := Typed ''perNLA'') = f(K_rent := Typed ''20'')"
    using assms(7) by (rule_tac ext) simp
  have empty: "effective f Map.empty = f"
    by (rule ext) (simp add: effective_def)
  have view: "scenarioView ?st = [(2, ner4 (f(K_rent := Typed ''20''))), (3, ner4 f), (4, ner4 f)]"
    by (simp add: scenarioView_def setScenarioVal_def init_app_def calcScenarioNER_effective
        effective_single empty mode mode')
  have raw: "clamp (P_val (f K_nla)) (Fin 0) = Fin 1000" "clamp (P_val (f K_addon)) (Fin 0) = Fin 5"
    "Math_max (Fin 0) (Math_floor (P_val (f K_duration))) = Fin 60"
    "clamp (P_val (f K_rf)) (Fin 0) = Fin 5" "clamp (P_val (f K_agent)) (Fin 0) = Fin 2"
    "clamp (P_val (f K_fitPerNLA)) (Fin 0) = Fin 300"
    "clamp (P_val (f K_unforeseen)) (Fin 0) = Fin 0"
    "clamp (P_val (f K_rent)) (Fin 0) = Fin 15"
    using assms by (simp_all add: nla_def addon_def duration_def rf_def agent_def perNLA_def
        unforeseen_def rent_def)
  have r20: "clamp (P (''20'')) (Fin 0) = Fin 20" by (simp add: parse_defs)
  have new: "ner4 (f(K_rent := Typed ''20'')) = Fin ((20 * 1050 * 55 - 300000 - 2 * 20 * 1050 - 0) / 63000)"
    using assms(7) by (simp add: ner4_def gross_def gla_def nla_def addon_def rent_def months_def
        duration_def rf_def totalFit_def perNLA_def agentFees_def agent_def unforeseen_def
        denom_def eps_def raw r20)
  have old: "ner4 f = Fin ((15 * 1050 * 55 - 300000 - 2 * 15 * 1050 - 0) / 63000)"
    using assms(7) by (simp add: ner4_def gross_def gla_def nla_def addon_def rent_def months_def
        duration_def rf_def totalFit_def perNLA_def agentFees_def agent_def unforeseen_def
        denom_def eps_def raw)
  show ?thesis using frame view new old by simp
qed

text \<open>On the initial state of the application:\<close>

theorem scenario_isolation_witness:
  "nla init_f = Fin 1000 \<and> rent init_f = Fin 15
   \<and> f_app (setScenarioVal 2 K_rent (Typed ''20'') init_app) = init_f
   \<and> scenarioView (setScenarioVal 2 K_rent (Typed ''20'') init_app)
        = [(2, Fin (271 / 21)), (3, Fin (713 / 84)), (4, Fin (713 / 84))]
   \<and> ner4 (f_app (setScenarioVal 2 K_rent (Typed ''20'') init_app)) = Fin (713 / 84)"
proof -
  have h1: "nla init_f = Fin 1000" by (simp add: nla_def init_f_def parse_defs)
  have h2: "addon init_f = Fin 5" by (simp add: addon_def init_f_def parse_defs)
  have h3: "rent init_f = Fin 15" by (simp add: rent_def init_f_def parse_defs)
  have h4: "duration init_f = Fin 60" by (simp add: duration_def init_f_def parse_defs)
  have h5: "rf init_f = Fin 5" by (simp add: rf_def init_f_def parse_defs)
  have h6: "agent init_f = Fin 2" by (simp add: agent_def init_f_def parse_defs)
  have h7: "init_f K_fitMode = Typed ''perNLA''" by (simp add: init_f_def)
  have h8: "perNLA init_f = Fin 300" by (simp add: perNLA_def init_f_def parse_defs)
  have h9: "unforeseen init_f = Fin 0" by (simp add: unforeseen_def init_f_def parse_defs)
  have st: "\<lparr>f_app = init_f, scenarios = scenarios init_app\<rparr> = init_app"
    by (simp add: init_app_def)
  show ?thesis
    using scenario_isolation [OF h1 h2 h3 h4 h5 h6 h7 h8 h9] h1 h3 by (simp add: st)
qed

section \<open>The sum of the waterfall\<close>


section \<open>The fit-out synchronisation: one run and the next\<close>

lemma guarded_div [simp]:
  "(if 0 < g then Fin t / Fin g else Fin 0) = Fin (if 0 < g then t / g else 0)"
  by simp

lemma clamp_Printed [simp]: "0 \<le> a \<Longrightarrow> clamp (P_val (Printed (Fin a))) (Fin 0) = Fin a"
  by simp

lemmas sync_defs = sync_def sync_writes_def write_if_def S_def Let_def eps_def
  nla_def addon_def gla_def perNLA_def perGLA_def tot_def



















end
